theory Spec2Isabelle
  imports Complex_Main "HOL-Library.Sublist"
begin

section \<open>Python values of the loan processor\<close>

text \<open>
  The program (\<^verbatim>\<open>src/app.py\<close>) works on JSON-shaped Python values: the records
  returned by the document service, the applicant profile, the risk assessment and the
  stored application are all dictionaries. A dictionary is an association list in
  insertion order. Python floats are modelled by exact rationals: rounding, infinities
  and NaN are outside the model. Strings are lists of 8-bit characters.
\<close>

datatype pyval =
    PNone
  | PBool bool
  | PInt int
  | PFloat rat
  | PStr string
  | PList "pyval list"
  | PDict "(string \<times> pyval) list"
  | PDatetime string

type_synonym dict = "(string \<times> pyval) list"

text \<open>
  Exceptions. \<open>RequestException m\<close> and \<open>JSONDecodeError m\<close> carry \<^verbatim>\<open>str(e)\<close>;
  \<open>ValueError m\<close> carries the message of a \<^verbatim>\<open>raise ValueError(m)\<close> of the source.
  \<open>Exception p e\<close> is \<^verbatim>\<open>Exception(f"{p}{str(e)}")\<close>, the re-raise used by the
  handlers of the source. \<open>PyMongoError m\<close> is an error of the database driver. The other
  constructors are raised by the interpreter.
\<close>

datatype exn =
    RequestException string
  | JSONDecodeError string
  | ValueError string
  | TypeError
  | KeyError string
  | IndexError
  | ZeroDivisionError
  | AttributeError
  | PyMongoError string
  | Exception string exn

text \<open>\<^verbatim>\<open>d.get(k, default)\<close> and \<^verbatim>\<open>d.get(k)\<close> on a dictionary.\<close>

definition dict_get :: "dict \<Rightarrow> string \<Rightarrow> pyval \<Rightarrow> pyval" where
  "dict_get d k dflt = (case map_of d k of Some v \<Rightarrow> v | None \<Rightarrow> dflt)"

text \<open>\<^verbatim>\<open>d[k] = v\<close>: an existing key keeps its place, a new key is appended.\<close>

fun dict_set :: "dict \<Rightarrow> string \<Rightarrow> pyval \<Rightarrow> dict" where
  "dict_set [] k v = [(k, v)]"
| "dict_set ((k', v') # d) k v = (if k' = k then (k, v) # d else (k', v') # dict_set d k v)"

text \<open>Truth value of a Python object, as \<^verbatim>\<open>if x:\<close> tests it.\<close>

fun py_truthy :: "pyval \<Rightarrow> bool" where
  "py_truthy PNone = False"
| "py_truthy (PBool b) = b"
| "py_truthy (PInt i) = (i \<noteq> 0)"
| "py_truthy (PFloat f) = (f \<noteq> 0)"
| "py_truthy (PStr s) = (s \<noteq> [])"
| "py_truthy (PList xs) = (xs \<noteq> [])"
| "py_truthy (PDict d) = (d \<noteq> [])"
| "py_truthy (PDatetime t) = True"

text \<open>The numeric value of a Python number (\<^verbatim>\<open>bool\<close> is a subclass of \<^verbatim>\<open>int\<close>).\<close>

fun py_num :: "pyval \<Rightarrow> rat option" where
  "py_num (PBool b) = Some (if b then 1 else 0)"
| "py_num (PInt i) = Some (of_int i)"
| "py_num (PFloat f) = Some f"
| "py_num v = None"

text \<open>
  Arithmetic with a float operand \<open>c\<close>: \<^verbatim>\<open>x * c\<close>, \<^verbatim>\<open>x + c\<close> and \<^verbatim>\<open>c / x\<close> give a
  float for a number \<open>x\<close> and raise \<^verbatim>\<open>TypeError\<close> for every other JSON value;
  \<^verbatim>\<open>x > 0\<close> likewise.
\<close>

definition py_mul_float :: "pyval \<Rightarrow> rat \<Rightarrow> exn + rat" where
  "py_mul_float x c = (case py_num x of Some n \<Rightarrow> Inr (n * c) | None \<Rightarrow> Inl TypeError)"

definition py_add_float :: "pyval \<Rightarrow> rat \<Rightarrow> exn + rat" where
  "py_add_float x c = (case py_num x of Some n \<Rightarrow> Inr (n + c) | None \<Rightarrow> Inl TypeError)"

definition py_float_div :: "rat \<Rightarrow> pyval \<Rightarrow> exn + rat" where
  "py_float_div c x =
     (case py_num x of
        Some n \<Rightarrow> if n = 0 then Inl ZeroDivisionError else Inr (c / n)
      | None \<Rightarrow> Inl TypeError)"

definition py_gt_zero :: "pyval \<Rightarrow> exn + bool" where
  "py_gt_zero x = (case py_num x of Some n \<Rightarrow> Inr (n > 0) | None \<Rightarrow> Inl TypeError)"

section \<open>Parsing the employment start date\<close>

text \<open>
  \<^verbatim>\<open>datetime.strptime(s, "%Y-%m-%d")\<close>. The library compiles the format to the regular
  expression
  \<^verbatim>\<open>(?P<Y>\d\d\d\d)-(?P<m>1[0-2]|0[1-9]|[1-9])-(?P<d>3[0-1]|[1-2]\d|0[1-9]|[1-9]| [1-9])\<close>,
  matches it at the start of the string, rejects a match that leaves text over, and
  then builds the date, which rejects year 0 and a day the month does not have.
  Alternatives are tried in the order written.
\<close>

definition is_digit :: "char \<Rightarrow> bool" where
  "is_digit c = (48 \<le> (of_char c :: nat) \<and> (of_char c :: nat) \<le> 57)"

definition digit_val :: "char \<Rightarrow> int" where
  "digit_val c = int (of_char c) - 48"

definition in_range :: "char \<Rightarrow> nat \<Rightarrow> nat \<Rightarrow> bool" where
  "in_range c lo hi = (is_digit c \<and> lo \<le> nat (digit_val c) \<and> nat (digit_val c) \<le> hi)"

fun match_Y :: "string \<Rightarrow> (int \<times> string) option" where
  "match_Y (a # b # c # d # rest) =
     (if is_digit a \<and> is_digit b \<and> is_digit c \<and> is_digit d
      then Some (1000 * digit_val a + 100 * digit_val b + 10 * digit_val c + digit_val d, rest)
      else None)"
| "match_Y s = None"

fun match_dash :: "string \<Rightarrow> string option" where
  "match_dash (c # rest) = (if c = CHR ''-'' then Some rest else None)"
| "match_dash [] = None"

text \<open>All ways the month group can match, in the order the engine tries them.\<close>

definition match_m :: "string \<Rightarrow> (int \<times> string) list" where
  "match_m s =
     (case s of
        a # b # rest \<Rightarrow>
          (if a = CHR ''1'' \<and> in_range b 0 2 then [(10 + digit_val b, rest)] else []) @
          (if a = CHR ''0'' \<and> in_range b 1 9 then [(digit_val b, rest)] else []) @
          (if in_range a 1 9 then [(digit_val a, b # rest)] else [])
      | [a] \<Rightarrow> (if in_range a 1 9 then [(digit_val a, [])] else [])
      | [] \<Rightarrow> [])"

text \<open>The day group is the last of the pattern: its first matching alternative wins.\<close>

definition match_d :: "string \<Rightarrow> (int \<times> string) option" where
  "match_d s =
     (case s of
        a # b # rest \<Rightarrow>
          (if a = CHR ''3'' \<and> in_range b 0 1 then Some (30 + digit_val b, rest)
           else if in_range a 1 2 \<and> is_digit b then Some (10 * digit_val a + digit_val b, rest)
           else if a = CHR ''0'' \<and> in_range b 1 9 then Some (digit_val b, rest)
           else if in_range a 1 9 then Some (digit_val a, b # rest)
           else if a = CHR '' '' \<and> in_range b 1 9 then Some (digit_val b, rest)
           else None)
      | [a] \<Rightarrow> (if in_range a 1 9 then Some (digit_val a, []) else None)
      | [] \<Rightarrow> None)"

text \<open>The rest of the pattern after a month alternative; the first alternative whose
  continuation matches gives the match.\<close>

fun first_match :: "(int \<times> string) list \<Rightarrow> (int \<times> int \<times> string) option" where
  "first_match [] = None"
| "first_match ((m, rest) # alts) =
     (case match_dash rest of
        None \<Rightarrow> first_match alts
      | Some rest' \<Rightarrow>
          (case match_d rest' of
             None \<Rightarrow> first_match alts
           | Some (d, rest'') \<Rightarrow> Some (m, d, rest'')))"

definition is_leap :: "int \<Rightarrow> bool" where
  "is_leap y = (y mod 4 = 0 \<and> (y mod 100 \<noteq> 0 \<or> y mod 400 = 0))"

definition days_in_month :: "int \<Rightarrow> int \<Rightarrow> int" where
  "days_in_month y m =
     (if m = 2 then (if is_leap y then 29 else 28)
      else if m = 4 \<or> m = 6 \<or> m = 9 \<or> m = 11 then 30 else 31)"

text \<open>The parsed date as (year, month, day), or the \<^verbatim>\<open>ValueError\<close> of the library
  (\<^verbatim>\<open>TypeError\<close> for an argument that is not a string).\<close>

definition strptime_ymd :: "pyval \<Rightarrow> exn + (int \<times> int \<times> int)" where
  "strptime_ymd v =
     (case v of
        PStr s \<Rightarrow>
          (case match_Y s of
             None \<Rightarrow> Inl (ValueError ''time data does not match format'')
           | Some (y, r1) \<Rightarrow>
               (case match_dash r1 of
                  None \<Rightarrow> Inl (ValueError ''time data does not match format'')
                | Some r2 \<Rightarrow>
                    (case first_match (match_m r2) of
                       None \<Rightarrow> Inl (ValueError ''time data does not match format'')
                     | Some (m, d, r3) \<Rightarrow>
                         if r3 \<noteq> [] then Inl (ValueError ''unconverted data remains'')
                         else if y < 1 then Inl (ValueError ''year is out of range'')
                         else if d > days_in_month y m
                           then Inl (ValueError ''day is out of range for month'')
                         else Inr (y, m, d))))
      | _ \<Rightarrow> Inl TypeError)"

section \<open>Combining the extracted records\<close>

text \<open>
  Lines 187 to 196 of \<^verbatim>\<open>combine_extracted_data\<close>. \<open>today\<close> is the (year, month) of
  \<^verbatim>\<open>datetime.now()\<close>. The bare \<^verbatim>\<open>except:\<close> turns every exception of the parse
  into 0 months.
\<close>

definition employment_months_of :: "int \<times> int \<Rightarrow> pyval \<Rightarrow> int" where
  "employment_months_of today employment_start =
     (if py_truthy employment_start then
        (case strptime_ymd employment_start of
           Inr (y, m, d) \<Rightarrow> (fst today - y) * 12 + (snd today - m)
         | Inl e \<Rightarrow> 0)
      else 0)"

text \<open>
  \<^verbatim>\<open>combine_extracted_data(identity_data, income_data, bank_data=None)\<close>.
  \<^verbatim>\<open>if bank_data:\<close> is false for \<^verbatim>\<open>None\<close> and for an empty dictionary. The default
  of \<^verbatim>\<open>monthly_net_income\<close> is an argument of \<^verbatim>\<open>get\<close>, so Python evaluates
  \<^verbatim>\<open>income_data.get("monthly_gross_income", 0) * 0.7\<close> whether or not it is used, and
  its \<^verbatim>\<open>TypeError\<close> leaves the function.
\<close>

definition bank_fields :: "dict \<Rightarrow> dict" where
  "bank_fields bank_data =
     [(''average_balance'', dict_get bank_data ''average_balance'' (PInt 0)),
      (''total_expenses'', dict_get bank_data ''total_expenses'' (PInt 0)),
      (''recurring_loan_payments'', dict_get bank_data ''recurring_loan_payments'' (PInt 0)),
      (''overdraft_occurrences'', dict_get bank_data ''overdraft_occurrences'' (PInt 0))]"

definition no_bank_fields :: dict where
  "no_bank_fields =
     [(''average_balance'', PNone),
      (''total_expenses'', PNone),
      (''recurring_loan_payments'', PInt 0),
      (''overdraft_occurrences'', PNone)]"

definition combine_extracted_data ::
    "int \<times> int \<Rightarrow> dict \<Rightarrow> dict \<Rightarrow> dict option \<Rightarrow> exn + dict" where
  "combine_extracted_data today identity_data income_data bank_data =
     (let full_name = dict_get identity_data ''full_name''
                        (dict_get income_data ''applicant_name'' (PStr ''Unknown''));
          employment_start = dict_get income_data ''employment_start_date'' (PStr '''');
          employment_months = employment_months_of today employment_start
      in case py_mul_float (dict_get income_data ''monthly_gross_income'' (PInt 0)) (7 / 10) of
           Inl e \<Rightarrow> Inl e
         | Inr net_default \<Rightarrow>
             Inr ([(''full_name'', full_name),
                   (''date_of_birth'', dict_get identity_data ''date_of_birth'' (PStr '''')),
                   (''document_number'', dict_get identity_data ''document_number'' (PStr '''')),
                   (''address'', dict_get identity_data ''address'' (PStr '''')),
                   (''employer_name'', dict_get income_data ''employer_name'' (PStr '''')),
                   (''job_title'', dict_get income_data ''job_title'' (PStr '''')),
                   (''monthly_gross_income'', dict_get income_data ''monthly_gross_income'' (PInt 0)),
                   (''monthly_net_income'',
                      dict_get income_data ''monthly_net_income'' (PFloat net_default)),
                   (''employment_start_date'', employment_start),
                   (''employment_months'', PInt employment_months),
                   (''contract_type'', dict_get income_data ''contract_type'' (PStr ''unknown''))] @
                  (case bank_data of
                     None \<Rightarrow> no_bank_fields
                   | Some b \<Rightarrow> if py_truthy (PDict b) then bank_fields b else no_bank_fields)))"

section \<open>Dynamic operations on JSON values\<close>

text \<open>Sequencing of computations that may raise.\<close>

definition bind_e :: "exn + 'a \<Rightarrow> ('a \<Rightarrow> exn + 'b) \<Rightarrow> exn + 'b" where
  "bind_e m f = (case m of Inl e \<Rightarrow> Inl e | Inr x \<Rightarrow> f x)"

text \<open>\<^verbatim>\<open>k in v\<close> for a string \<open>k\<close>: a key of a dictionary, an element of a list, a
  substring of a string; \<^verbatim>\<open>TypeError\<close> for a value that is not a container.\<close>

fun py_contains :: "string \<Rightarrow> pyval \<Rightarrow> exn + bool" where
  "py_contains k (PDict d) = Inr (map_of d k \<noteq> None)"
| "py_contains k (PList xs) = Inr (List.member xs (PStr k))"
| "py_contains k (PStr s) = Inr (sublist k s)"
| "py_contains k v = Inl TypeError"

text \<open>\<^verbatim>\<open>len(v)\<close>.\<close>

fun py_len :: "pyval \<Rightarrow> exn + nat" where
  "py_len (PDict d) = Inr (length d)"
| "py_len (PList xs) = Inr (length xs)"
| "py_len (PStr s) = Inr (length s)"
| "py_len v = Inl TypeError"

text \<open>\<^verbatim>\<open>v[k]\<close> for a string \<open>k\<close>, and \<^verbatim>\<open>v[0]\<close>. The keys of a JSON object are strings,
  so 0 is never one of them.\<close>

fun py_item :: "pyval \<Rightarrow> string \<Rightarrow> exn + pyval" where
  "py_item (PDict d) k = (case map_of d k of Some v \<Rightarrow> Inr v | None \<Rightarrow> Inl (KeyError k))"
| "py_item v k = Inl TypeError"

fun py_first :: "pyval \<Rightarrow> exn + pyval" where
  "py_first (PList xs) = (case xs of [] \<Rightarrow> Inl IndexError | x # _ \<Rightarrow> Inr x)"
| "py_first (PStr s) = (case s of [] \<Rightarrow> Inl IndexError | c # _ \<Rightarrow> Inr (PStr [c]))"
| "py_first (PDict d) = Inl (KeyError ''0'')"
| "py_first v = Inl TypeError"

text \<open>The elements a \<^verbatim>\<open>for\<close> loop visits.\<close>

fun py_iter :: "pyval \<Rightarrow> exn + pyval list" where
  "py_iter (PList xs) = Inr xs"
| "py_iter (PDict d) = Inr (map (\<lambda>kv. PStr (fst kv)) d)"
| "py_iter (PStr s) = Inr (map (\<lambda>c. PStr [c]) s)"
| "py_iter v = Inl TypeError"

text \<open>\<^verbatim>\<open>k in v and len(v[k]) > 0\<close>, the guard the source puts before \<^verbatim>\<open>v[k][0]\<close>.\<close>

definition has_nonempty :: "string \<Rightarrow> pyval \<Rightarrow> exn + bool" where
  "has_nonempty k v =
     bind_e (py_contains k v) (\<lambda>present.
       if present then bind_e (py_item v k) (\<lambda>x. bind_e (py_len x) (\<lambda>n. Inr (n > 0)))
       else Inr False)"

text \<open>A method call \<^verbatim>\<open>v.get(...)\<close> needs a dictionary; \<^verbatim>\<open>format(v, ",.2f")\<close> needs
  a number.\<close>

fun py_as_dict :: "pyval \<Rightarrow> exn + dict" where
  "py_as_dict (PDict d) = Inr d"
| "py_as_dict v = Inl AttributeError"

fun py_format_2f :: "pyval \<Rightarrow> exn + unit" where
  "py_format_2f (PStr s) = Inl (ValueError ''Unknown format code'')"
| "py_format_2f v = (case py_num v of Some n \<Rightarrow> Inr () | None \<Rightarrow> Inl TypeError)"

subsection \<open>String methods\<close>

definition is_space :: "char \<Rightarrow> bool" where
  "is_space c = ((of_char c :: nat) \<in> {9, 10, 11, 12, 13, 28, 29, 30, 31, 32})"

definition strip :: "string \<Rightarrow> string" where
  "strip s = rev (dropWhile is_space (rev (dropWhile is_space s)))"

definition startswith :: "string \<Rightarrow> string \<Rightarrow> bool" where
  "startswith s p = prefix p s"

definition endswith :: "string \<Rightarrow> string \<Rightarrow> bool" where
  "endswith s p = suffix p s"

text \<open>Three backticks, the fence of a Markdown code block.\<close>

definition fence :: string where
  "fence = [CHR 0x60, CHR 0x60, CHR 0x60]"

text \<open>Lines 326 to 333 of \<^verbatim>\<open>analyze_risk\<close>: the three tests run one after the
  other, each on the result of the one before.\<close>

definition strip_code_fences :: "string \<Rightarrow> string" where
  "strip_code_fences content =
     (let c0 = strip content;
          c1 = (if startswith c0 (fence @ ''json'') then drop 7 c0 else c0);
          c2 = (if startswith c1 fence then drop 3 c1 else c1);
          c3 = (if endswith c2 fence then take (length c2 - 3) c2 else c2)
      in strip c3)"

section \<open>External services and observable effects\<close>

text \<open>
  The steps of the pipeline, as \<^verbatim>\<open>main\<close> announces them with \<^verbatim>\<open>st.spinner\<close> and
  \<^verbatim>\<open>st.success\<close>, and the effects a run leaves: the calls to the three external
  services and the messages of the page. \<open>DocAIPost t b\<close> is the \<^verbatim>\<open>requests.post\<close> to
  the document service for document type \<open>t\<close> and file contents \<open>b\<close>,
  \<open>MinistralPost\<close> the one to the reasoning model, \<open>MongoInsert d\<close> the call
  \<^verbatim>\<open>collection.insert_one(d)\<close>.
\<close>

datatype step = ExtractIdentity | ExtractIncome | ExtractBank | Combine | Score | Persist

datatype event =
    DocAIPost string string
  | MinistralPost
  | MongoInsert dict
  | Spinner step
  | Success step
  | ErrorShown exn
  | Complete

text \<open>
  What the program cannot decide: the answers of the services, the clock and the JSON
  parser of the standard library. \<open>docai_post\<close> and \<open>ministral_post\<close> give the outcome
  of \<^verbatim>\<open>requests.post(...)\<close>, \<^verbatim>\<open>raise_for_status()\<close> and \<^verbatim>\<open>response.json()\<close> together:
  the decoded body or the exception raised. The prompt sent to the reasoning model is a
  function of the profile and the loan amount, so \<open>ministral_post\<close> takes these.
  \<open>json_loads\<close> is \<^verbatim>\<open>json.loads\<close>: \<open>Inl m\<close> is a \<^verbatim>\<open>JSONDecodeError\<close> with message \<open>m\<close>.
  \<open>clock_today\<close> is the year and month of \<^verbatim>\<open>datetime.now()\<close>, \<open>clock_iso\<close> its
  \<^verbatim>\<open>isoformat()\<close>, \<open>clock_utcnow\<close> is \<^verbatim>\<open>datetime.utcnow()\<close>. \<open>mongo_client\<close> is the
  exception of \<^verbatim>\<open>MongoClient(...)\<close>, if any; \<open>insert_one\<close> gives the outcome of the
  insertion (the exception, or the inserted id as a string) and the document as the
  driver leaves it; \<open>mongo_close\<close> is the exception of \<^verbatim>\<open>client.close()\<close>, if any.
\<close>

record env =
  docai_post :: "string \<Rightarrow> string \<Rightarrow> exn + pyval"
  ministral_post :: "dict \<Rightarrow> pyval \<Rightarrow> exn + pyval"
  json_loads :: "string \<Rightarrow> string + pyval"
  clock_today :: "int \<times> int"
  clock_iso :: string
  mongo_client :: "exn option"
  clock_utcnow :: string
  insert_one :: "dict \<Rightarrow> (exn + string) \<times> dict"
  mongo_close :: "exn option"

text \<open>A computation with effects: the events it leaves, in order, and its result.\<close>

type_synonym 'a run = "event list \<times> (exn + 'a)"

definition emit :: "event \<Rightarrow> unit run" where
  "emit ev = ([ev], Inr ())"

definition lift :: "exn + 'a \<Rightarrow> 'a run" where
  "lift r = ([], r)"

definition bind_run :: "'a run \<Rightarrow> ('a \<Rightarrow> 'b run) \<Rightarrow> 'b run" where
  "bind_run m f =
     (case m of
        (es, Inl e) \<Rightarrow> (es, Inl e)
      | (es, Inr x) \<Rightarrow> (case f x of (es', r) \<Rightarrow> (es @ es', r)))"

section \<open>Document extraction\<close>

text \<open>The schema registry \<^verbatim>\<open>SCHEMAS\<close>: for each document type the title, the
  properties (name, type, allowed values if enumerated) and the required properties.
  The descriptions of the properties are left out.\<close>

record schema =
  title :: string
  properties :: "(string \<times> string \<times> string list) list"
  required :: "string list"

definition SCHEMAS :: "(string \<times> schema) list" where
  "SCHEMAS =
     [(''identity'',
       \<lparr>title = ''IdentityDocument'',
        properties =
          [(''full_name'', ''string'', []),
           (''date_of_birth'', ''string'', []),
           (''document_number'', ''string'', []),
           (''document_type'', ''string'', [''passport'', ''id_card'', ''drivers_license'']),
           (''address'', ''string'', []),
           (''nationality'', ''string'', []),
           (''issue_date'', ''string'', []),
           (''expiry_date'', ''string'', [])],
        required = [''full_name'', ''date_of_birth'', ''document_number'']\<rparr>),
      (''income'',
       \<lparr>title = ''IncomeDocument'',
        properties =
          [(''applicant_name'', ''string'', []),
           (''employer_name'', ''string'', []),
           (''job_title'', ''string'', []),
           (''monthly_gross_income'', ''number'', []),
           (''monthly_net_income'', ''number'', []),
           (''employment_start_date'', ''string'', []),
           (''contract_type'', ''string'', [''permanent'', ''fixed_term'', ''temporary'']),
           (''payment_date'', ''string'', [])],
        required = [''applicant_name'', ''employer_name'', ''job_title'',
                    ''monthly_gross_income'', ''employment_start_date'']\<rparr>),
      (''bank_statement'',
       \<lparr>title = ''BankStatement'',
        properties =
          [(''account_holder_name'', ''string'', []),
           (''statement_period_start'', ''string'', []),
           (''statement_period_end'', ''string'', []),
           (''average_balance'', ''number'', []),
           (''total_income'', ''number'', []),
           (''total_expenses'', ''number'', []),
           (''recurring_loan_payments'', ''number'', []),
           (''overdraft_occurrences'', ''integer'', [])],
        required = [''account_holder_name'', ''statement_period_start'',
                    ''statement_period_end'']\<rparr>)]"

text \<open>The loop over \<^verbatim>\<open>page["images"]\<close>: the first image that has an annotation
  decides; an annotation that is a string is parsed as JSON.\<close>

fun find_annotation :: "(string \<Rightarrow> string + pyval) \<Rightarrow> pyval list \<Rightarrow> exn + pyval option" where
  "find_annotation loads [] = Inr None"
| "find_annotation loads (img # imgs) =
     (case py_contains ''image_annotation'' img of
        Inl e \<Rightarrow> Inl e
      | Inr True \<Rightarrow>
          (case py_item img ''image_annotation'' of
             Inl e \<Rightarrow> Inl e
           | Inr (PStr a) \<Rightarrow>
               (case loads a of Inl m \<Rightarrow> Inl (JSONDecodeError m) | Inr v \<Rightarrow> Inr (Some v))
           | Inr annotation \<Rightarrow> Inr (Some annotation))
      | Inr False \<Rightarrow> find_annotation loads imgs)"

text \<open>Lines 149 to 164: the record is read from the first page of the response.\<close>

definition read_extraction ::
    "(string \<Rightarrow> string + pyval) \<Rightarrow> string \<Rightarrow> pyval \<Rightarrow> exn + pyval" where
  "read_extraction loads document_type result =
     bind_e (has_nonempty ''pages'' result) (\<lambda>has_pages.
       if has_pages then
         bind_e (py_item result ''pages'') (\<lambda>pages.
         bind_e (py_first pages) (\<lambda>page.
         bind_e (has_nonempty ''images'' page) (\<lambda>has_images.
         bind_e (if has_images
                 then bind_e (py_item page ''images'') (\<lambda>imgs.
                      bind_e (py_iter imgs) (find_annotation loads))
                 else Inr None) (\<lambda>found.
           case found of
             Some annotation \<Rightarrow> Inr annotation
           | None \<Rightarrow>
               bind_e (py_contains ''markdown'' page) (\<lambda>has_markdown.
                 if has_markdown then
                   bind_e (py_item page ''markdown'') (\<lambda>markdown.
                     Inr (PDict [(''raw_text'', markdown),
                                 (''document_type'', PStr document_type)]))
                 else Inl (ValueError ''No data extracted from document''))))))
       else Inl (ValueError ''No data extracted from document''))"

text \<open>The two \<^verbatim>\<open>except\<close> clauses of \<^verbatim>\<open>extract_document_data\<close>, in their order.\<close>

fun extraction_handler :: "exn \<Rightarrow> exn" where
  "extraction_handler (RequestException m) =
     Exception ''Document AI API error: '' (RequestException m)"
| "extraction_handler e = Exception ''Extraction error: '' e"

text \<open>
  \<^verbatim>\<open>extract_document_data(pdf_file, document_type)\<close>. \<open>pdf_file\<close> is the contents of the
  uploaded file, which \<^verbatim>\<open>read()\<close> returns. Every schema of the registry is a non-empty
  dictionary, so \<^verbatim>\<open>not schema\<close> holds exactly for a document type that is not a key.
  The payload is determined by the document type and the file contents, which the
  event records.
\<close>

definition extract_document_data :: "env \<Rightarrow> string \<Rightarrow> string \<Rightarrow> pyval run" where
  "extract_document_data env pdf_file document_type =
     (case (case map_of SCHEMAS document_type of
              None \<Rightarrow> lift (Inl (ValueError (''Unknown document type: '' @ document_type)))
            | Some schema \<Rightarrow>
                bind_run (emit (DocAIPost document_type pdf_file)) (\<lambda>_.
                  lift (bind_e (docai_post env document_type pdf_file)
                          (read_extraction (json_loads env) document_type)))) of
        (es, Inl e) \<Rightarrow> (es, Inl (extraction_handler e))
      | (es, Inr extracted) \<Rightarrow> (es, Inr extracted))"

section \<open>Risk analysis\<close>

text \<open>
  Lines 245 to 249 of \<^verbatim>\<open>analyze_risk\<close>: the estimated monthly payment, the total debt
  and the debt-to-income ratio, all floats.
\<close>

definition deterministic_metrics :: "dict \<Rightarrow> pyval \<Rightarrow> exn + (rat \<times> rat \<times> rat)" where
  "deterministic_metrics combined_data loan_amount =
     (let monthly_income = dict_get combined_data ''monthly_gross_income'' (PInt 0);
          existing_loan_payments = dict_get combined_data ''recurring_loan_payments'' (PInt 0)
      in bind_e (py_mul_float loan_amount (2 / 100)) (\<lambda>estimated_monthly_payment.
         bind_e (py_add_float existing_loan_payments estimated_monthly_payment) (\<lambda>total_debt.
         bind_e (py_gt_zero monthly_income) (\<lambda>positive.
         bind_e (if positive then py_float_div total_debt monthly_income else Inr 1)
           (\<lambda>dti_ratio. Inr (estimated_monthly_payment, total_debt, dti_ratio))))))"

text \<open>Lines 321 to 338: the content of the first choice, without its code fence,
  parsed as JSON. \<^verbatim>\<open>content.strip()\<close> needs a string.\<close>

definition read_assessment :: "(string \<Rightarrow> string + pyval) \<Rightarrow> pyval \<Rightarrow> exn + pyval" where
  "read_assessment loads result =
     bind_e (has_nonempty ''choices'' result) (\<lambda>has_choices.
       if has_choices then
         bind_e (py_item result ''choices'') (\<lambda>choices.
         bind_e (py_first choices) (\<lambda>choice.
         bind_e (py_item choice ''message'') (\<lambda>message.
         bind_e (py_item message ''content'') (\<lambda>content.
           case content of
             PStr c \<Rightarrow>
               (case loads (strip_code_fences c) of
                  Inl m \<Rightarrow> Inl (JSONDecodeError m)
                | Inr risk_assessment \<Rightarrow> Inr risk_assessment)
           | _ \<Rightarrow> Inl AttributeError))))
       else Inl (ValueError ''No response from Ministral-3B''))"

text \<open>The safe defaults of the two \<^verbatim>\<open>except\<close> clauses of \<^verbatim>\<open>analyze_risk\<close>.\<close>

definition api_error_assessment :: "rat \<Rightarrow> string \<Rightarrow> dict" where
  "api_error_assessment dti_ratio m =
     [(''risk_score'', PInt 100),
      (''risk_level'', PStr ''HIGH''),
      (''debt_to_income_ratio'', PFloat dti_ratio),
      (''recommendation'', PStr ''REJECT''),
      (''explanation'', PStr (''Risk analysis failed due to API error: '' @ m @
                              ''. Application rejected as safety measure.'')),
      (''flags'', PList [PDict [(''flag_type'', PStr ''SYSTEM_ERROR''),
                                (''message'', PStr ''Risk analysis system unavailable''),
                                (''severity'', PStr ''high'')]]),
      (''suggested_actions'', PList [PStr ''Retry analysis'', PStr ''Contact IT support'']),
      (''policy_compliance'', PDict [])]"

definition parsing_error_assessment :: "rat \<Rightarrow> string \<Rightarrow> dict" where
  "parsing_error_assessment dti_ratio m =
     [(''risk_score'', PInt 100),
      (''risk_level'', PStr ''HIGH''),
      (''debt_to_income_ratio'', PFloat dti_ratio),
      (''recommendation'', PStr ''REJECT''),
      (''explanation'', PStr (''Risk analysis response parsing failed: '' @ m @
                              ''. Application rejected as safety measure.'')),
      (''flags'', PList [PDict [(''flag_type'', PStr ''SYSTEM_ERROR''),
                                (''message'', PStr ''Risk analysis parsing error''),
                                (''severity'', PStr ''high'')]]),
      (''suggested_actions'', PList [PStr ''Retry analysis'', PStr ''Contact IT support'']),
      (''policy_compliance'', PDict [])]"

text \<open>The \<^verbatim>\<open>except\<close> clauses in their order: a \<^verbatim>\<open>RequestException\<close>, then a
  \<^verbatim>\<open>json.JSONDecodeError\<close>; any other exception leaves the function. (An exception
  of both classes, as recent versions of the HTTP library raise for a body that is not
  JSON, is caught by the first clause: the environment gives it as a
  \<open>RequestException\<close>.)\<close>

fun risk_handler :: "rat \<Rightarrow> exn \<Rightarrow> exn + pyval" where
  "risk_handler dti_ratio (RequestException m) = Inr (PDict (api_error_assessment dti_ratio m))"
| "risk_handler dti_ratio (JSONDecodeError m) =
     Inr (PDict (parsing_error_assessment dti_ratio m))"
| "risk_handler dti_ratio e = Inl e"

text \<open>
  \<^verbatim>\<open>analyze_risk(combined_data, loan_amount)\<close>. The metrics raise only a
  \<^verbatim>\<open>TypeError\<close>, which no clause catches; once they are computed, the values the
  prompt formats with \<^verbatim>\<open>:,.2f\<close> are numbers, so building the prompt does not raise.
\<close>

definition analyze_risk :: "env \<Rightarrow> dict \<Rightarrow> pyval \<Rightarrow> pyval run" where
  "analyze_risk env combined_data loan_amount =
     (case deterministic_metrics combined_data loan_amount of
        Inl e \<Rightarrow> ([], Inl e)
      | Inr (estimated_monthly_payment, total_debt, dti_ratio) \<Rightarrow>
          ([MinistralPost],
           case bind_e (ministral_post env combined_data loan_amount)
                  (read_assessment (json_loads env)) of
             Inl e \<Rightarrow> risk_handler dti_ratio e
           | Inr risk_assessment \<Rightarrow> Inr risk_assessment))"

section \<open>Persistence and report\<close>

text \<open>
  \<^verbatim>\<open>save_to_mongodb(application_data)\<close>. The dictionary is the caller's object: the
  second component is that dictionary after the call. Every exception is re-raised as
  \<^verbatim>\<open>Exception(f"MongoDB error: {str(e)}")\<close>.
\<close>

definition save_to_mongodb :: "env \<Rightarrow> dict \<Rightarrow> string run \<times> dict" where
  "save_to_mongodb env application_data =
     (case mongo_client env of
        Some e \<Rightarrow> (([], Inl (Exception ''MongoDB error: '' e)), application_data)
      | None \<Rightarrow>
          (let stamped = dict_set application_data ''created_at'' (PDatetime (clock_utcnow env))
           in case insert_one env stamped of
                (Inl e, stored) \<Rightarrow>
                  (([MongoInsert stamped], Inl (Exception ''MongoDB error: '' e)), stored)
              | (Inr inserted_id, stored) \<Rightarrow>
                  (case mongo_close env of
                     Some e \<Rightarrow>
                       (([MongoInsert stamped], Inl (Exception ''MongoDB error: '' e)), stored)
                   | None \<Rightarrow> (([MongoInsert stamped], Inr inserted_id), stored))))"

text \<open>\<^verbatim>\<open>generate_download_report\<close>: the report before \<^verbatim>\<open>json.dumps\<close> writes it.\<close>

definition generate_download_report :: "env \<Rightarrow> dict \<Rightarrow> pyval \<Rightarrow> dict" where
  "generate_download_report env combined_data risk_assessment =
     [(''timestamp'', PStr (clock_iso env)),
      (''applicant_data'', PDict combined_data),
      (''risk_assessment'', risk_assessment)]"

section \<open>The pipeline of \<^verbatim>\<open>main\<close>\<close>

text \<open>
  The body of the \<^verbatim>\<open>try\<close> block under the process button, step by step as the
  source numbers them. The messages of \<^verbatim>\<open>st.success\<close> are built with
  \<^verbatim>\<open>record.get(...)\<close>, which needs a dictionary, and the income message formats the
  gross income with \<^verbatim>\<open>:,.2f\<close>, which needs a number: both can raise.
\<close>

definition step_identity :: "env \<Rightarrow> string \<Rightarrow> dict run" where
  "step_identity env identity_file =
     bind_run (emit (Spinner ExtractIdentity)) (\<lambda>_.
     bind_run (extract_document_data env identity_file ''identity'') (\<lambda>extracted.
     bind_run (lift (py_as_dict extracted)) (\<lambda>identity_data.
     bind_run (emit (Success ExtractIdentity)) (\<lambda>_.
       lift (Inr identity_data)))))"

definition step_income :: "env \<Rightarrow> string \<Rightarrow> dict run" where
  "step_income env income_file =
     bind_run (emit (Spinner ExtractIncome)) (\<lambda>_.
     bind_run (extract_document_data env income_file ''income'') (\<lambda>extracted.
     bind_run (lift (py_as_dict extracted)) (\<lambda>income_data.
     bind_run (lift (py_format_2f (dict_get income_data ''monthly_gross_income'' (PInt 0))))
       (\<lambda>_.
     bind_run (emit (Success ExtractIncome)) (\<lambda>_.
       lift (Inr income_data))))))"

definition step_bank :: "env \<Rightarrow> string option \<Rightarrow> dict option run" where
  "step_bank env bank_file =
     (case bank_file of
        None \<Rightarrow> lift (Inr None)
      | Some f \<Rightarrow>
          bind_run (emit (Spinner ExtractBank)) (\<lambda>_.
          bind_run (extract_document_data env f ''bank_statement'') (\<lambda>extracted.
          bind_run (lift (py_as_dict extracted)) (\<lambda>bank_data.
          bind_run (emit (Success ExtractBank)) (\<lambda>_.
            lift (Inr (Some bank_data)))))))"

definition step_combine :: "env \<Rightarrow> dict \<Rightarrow> dict \<Rightarrow> dict option \<Rightarrow> dict run" where
  "step_combine env identity_data income_data bank_data =
     bind_run (emit (Spinner Combine)) (\<lambda>_.
     bind_run (lift (combine_extracted_data (clock_today env) identity_data income_data
                       bank_data)) (\<lambda>combined_data.
     bind_run (emit (Success Combine)) (\<lambda>_.
       lift (Inr combined_data))))"

definition step_score :: "env \<Rightarrow> dict \<Rightarrow> int \<Rightarrow> pyval run" where
  "step_score env combined_data loan_amount =
     bind_run (emit (Spinner Score)) (\<lambda>_.
     bind_run (analyze_risk env combined_data (PInt loan_amount)) (\<lambda>risk_assessment.
     bind_run (lift (py_as_dict risk_assessment)) (\<lambda>_.
     bind_run (emit (Success Score)) (\<lambda>_.
       lift (Inr risk_assessment)))))"

definition step_persist :: "env \<Rightarrow> dict \<Rightarrow> pyval \<Rightarrow> int \<Rightarrow> string run" where
  "step_persist env combined_data risk_assessment loan_amount =
     bind_run (emit (Spinner Persist)) (\<lambda>_.
     bind_run (fst (save_to_mongodb env
                      [(''applicant_data'', PDict combined_data),
                       (''risk_assessment'', risk_assessment),
                       (''loan_amount'', PInt loan_amount)])) (\<lambda>application_id.
     bind_run (emit (Success Persist)) (\<lambda>_.
       lift (Inr application_id))))"

definition process_application ::
    "env \<Rightarrow> string \<Rightarrow> string \<Rightarrow> string option \<Rightarrow> int \<Rightarrow> (dict \<times> pyval \<times> string) run" where
  "process_application env identity_file income_file bank_file loan_amount =
     bind_run (step_identity env identity_file) (\<lambda>identity_data.
     bind_run (step_income env income_file) (\<lambda>income_data.
     bind_run (step_bank env bank_file) (\<lambda>bank_data.
     bind_run (step_combine env identity_data income_data bank_data) (\<lambda>combined_data.
     bind_run (step_score env combined_data loan_amount) (\<lambda>risk_assessment.
     bind_run (step_persist env combined_data risk_assessment loan_amount) (\<lambda>application_id.
       lift (Inr (combined_data, risk_assessment, application_id))))))))"

text \<open>The keys of \<^verbatim>\<open>st.session_state\<close> and the widgets of the page.\<close>

record session =
  identity_file :: "string option"
  income_file :: "string option"
  bank_file :: "string option"
  processing_complete :: bool
  combined_data :: "dict option"
  risk_assessment :: "pyval option"
  application_id :: "string option"

record widgets =
  identity_uploader :: "string option"
  income_uploader :: "string option"
  bank_uploader :: "string option"
  loan_slider :: int
  process_button :: bool

text \<open>The session of a new visitor, as \<^verbatim>\<open>main\<close> initialises it.\<close>

definition initial_session :: session where
  "initial_session =
     \<lparr>identity_file = None, income_file = None, bank_file = None,
      processing_complete = False, combined_data = None, risk_assessment = None,
      application_id = None\<rparr>"

text \<open>An uploaded file replaces the one the session holds; an empty uploader leaves
  the session as it is.\<close>

definition store_uploads :: "widgets \<Rightarrow> session \<Rightarrow> session" where
  "store_uploads w ss =
     ss\<lparr>identity_file := (case identity_uploader w of Some f \<Rightarrow> Some f | None \<Rightarrow> identity_file ss),
        income_file := (case income_uploader w of Some f \<Rightarrow> Some f | None \<Rightarrow> income_file ss),
        bank_file := (case bank_uploader w of Some f \<Rightarrow> Some f | None \<Rightarrow> bank_file ss)\<rparr>"

text \<open>The report the download button offers (lines 699 to 718): only after a run
  that completed, with the profile and the assessment the session holds.\<close>

definition offered_report :: "env \<Rightarrow> session \<Rightarrow> dict option" where
  "offered_report env ss =
     (case (combined_data ss, risk_assessment ss) of
        (Some cd, Some ra) \<Rightarrow>
          if processing_complete ss \<and> py_truthy (PDict cd) \<and> py_truthy ra
          then Some (generate_download_report env cd ra) else None
      | _ \<Rightarrow> None)"

text \<open>
  One run of the script \<^verbatim>\<open>main\<close>: the events, the session afterwards and the report
  offered for download, if any. The button is disabled unless both required files are
  held. After a complete run \<^verbatim>\<open>st.rerun()\<close> ends the script, and the next run shows
  the results; after an exception the handler shows the error and the script goes on
  to the results section.
\<close>

definition main :: "env \<Rightarrow> widgets \<Rightarrow> session \<Rightarrow> event list \<times> session \<times> dict option" where
  "main env w ss0 =
     (let ss = store_uploads w ss0 in
      case (process_button w, identity_file ss, income_file ss) of
        (True, Some idf, Some incf) \<Rightarrow>
          (case process_application env idf incf (bank_file ss) (loan_slider w) of
             (es, Inr (cd, ra, aid)) \<Rightarrow>
               (es @ [Complete],
                ss\<lparr>combined_data := Some cd, risk_assessment := Some ra,
                   application_id := Some aid, processing_complete := True\<rparr>,
                None)
           | (es, Inl e) \<Rightarrow> (es @ [ErrorShown e], ss, offered_report env ss))
      | _ \<Rightarrow> ([], ss, offered_report env ss))"




section \<open>A test environment\<close>

text \<open>
  Concrete answers of the services, used to run the definitions: the document service
  returns one page with one annotated image per document, the reasoning model answers
  with a fenced JSON object, \<open>demo_loads\<close> parses that one text as \<^verbatim>\<open>json.loads\<close>
  does and rejects every other text, and the database accepts the record.
\<close>

definition demo_record :: "string \<Rightarrow> dict" where
  "demo_record document_type =
     (if document_type = ''identity'' then
        [(''full_name'', PStr ''Ada Lovelace''),
         (''date_of_birth'', PStr ''1985-12-10''),
         (''document_number'', PStr ''X1234567'')]
      else if document_type = ''income'' then
        [(''applicant_name'', PStr ''A. Lovelace''),
         (''employer_name'', PStr ''Analytical Engines Ltd''),
         (''job_title'', PStr ''Engineer''),
         (''monthly_gross_income'', PInt 3000),
         (''employment_start_date'', PStr ''2020-01-15'')]
      else
        [(''account_holder_name'', PStr ''Ada Lovelace''),
         (''statement_period_start'', PStr ''2024-01-01''),
         (''statement_period_end'', PStr ''2024-03-31''),
         (''average_balance'', PInt 12000),
         (''recurring_loan_payments'', PInt 200)])"

definition demo_docai :: "string \<Rightarrow> string \<Rightarrow> exn + pyval" where
  "demo_docai document_type pdf_file =
     Inr (PDict [(''pages'',
            PList [PDict [(''images'',
              PList [PDict [(''image_annotation'', PDict (demo_record document_type))]])]])])"

definition demo_json :: string where
  "demo_json =
     ''{'' @ [CHR 0x22] @ ''risk_level'' @ [CHR 0x22] @ '': '' @
     [CHR 0x22] @ ''LOW'' @ [CHR 0x22] @ ''}''"

definition demo_loads :: "string \<Rightarrow> string + pyval" where
  "demo_loads s =
     (if s = demo_json then Inr (PDict [(''risk_level'', PStr ''LOW'')])
      else Inl ''Expecting value: line 1 column 1 (char 0)'')"

definition demo_content :: string where
  "demo_content = fence @ ''json'' @ [CHR 0x0A] @ demo_json @ [CHR 0x0A] @ fence"

definition demo_ministral :: "dict \<Rightarrow> pyval \<Rightarrow> exn + pyval" where
  "demo_ministral profile loan_amount =
     Inr (PDict [(''choices'',
            PList [PDict [(''message'',
              PDict [(''role'', PStr ''assistant''),
                     (''content'', PStr demo_content)])]])])"

definition demo_env :: env where
  "demo_env =
     \<lparr>docai_post = demo_docai,
      ministral_post = demo_ministral,
      json_loads = demo_loads,
      clock_today = (2024, 6),
      clock_iso = ''2024-06-01T12:00:00'',
      mongo_client = None,
      clock_utcnow = ''2024-06-01 10:00:00'',
      insert_one = (\<lambda>d. (Inr ''665b0c2f9d1e8a0012345678'',
                          d @ [(''_id'', PStr ''665b0c2f9d1e8a0012345678'')])),
      mongo_close = None\<rparr>"




definition mongo_down_env :: env where
  "mongo_down_env =
     demo_env\<lparr>insert_one :=
       (\<lambda>d. (Inl (PyMongoError ''No servers found yet''), d))\<rparr>"


definition demo_widgets :: widgets where
  "demo_widgets =
     \<lparr>identity_uploader = Some ''%PDF-id'', income_uploader = Some ''%PDF-pay'',
      bank_uploader = Some ''%PDF-bank'', loan_slider = 15000, process_button = True\<rparr>"

section \<open>Properties of the profile combiner\<close>

lemma combine_keys:
  assumes "combine_extracted_data now identity income bank = Inr p"
  shows "map_of p ''full_name'' =
           Some (dict_get identity ''full_name''
                   (dict_get income ''applicant_name'' (PStr ''Unknown'')))"
    and "map_of p ''employment_months'' =
           Some (PInt (employment_months_of now
                         (dict_get income ''employment_start_date'' (PStr ''''))))"
    and "k \<in> {''average_balance'', ''total_expenses'', ''recurring_loan_payments'',
              ''overdraft_occurrences''} \<Longrightarrow>
         map_of p k =
           map_of (case bank of
                     None \<Rightarrow> no_bank_fields
                   | Some b \<Rightarrow> if py_truthy (PDict b) then bank_fields b
                               else no_bank_fields) k"
  using assms
  by (auto simp: combine_extracted_data_def Let_def split: sum.splits)




text \<open>
  Claim C8 as stated fails for a bank record that is supplied and empty: every one of the
  four fields is missing from it, and the profile has null, not 0, for three of them,
  because \<^verbatim>\<open>if bank_data:\<close> takes an empty dictionary for no bank record.
\<close>

theorem combine_empty_bank_counterexample:
  "combine_extracted_data (2024, 6) [] [] (Some []) =
     Inr [(''full_name'', PStr ''Unknown''), (''date_of_birth'', PStr []),
          (''document_number'', PStr []), (''address'', PStr []),
          (''employer_name'', PStr []), (''job_title'', PStr []),
          (''monthly_gross_income'', PInt 0),
          (''monthly_net_income'', PFloat 0),
          (''employment_start_date'', PStr []), (''employment_months'', PInt 0),
          (''contract_type'', PStr ''unknown''), (''average_balance'', PNone),
          (''total_expenses'', PNone), (''recurring_loan_payments'', PInt 0),
          (''overdraft_occurrences'', PNone)]"
  by (simp add: combine_extracted_data_def Let_def dict_get_def py_mul_float_def
      employment_months_of_def no_bank_fields_def)

text \<open>
  Claim C8, amended. Without a bank record, or with an empty one, the profile has
  \<^verbatim>\<open>average_balance\<close>, \<^verbatim>\<open>total_expenses\<close> and \<^verbatim>\<open>overdraft_occurrences\<close> null and
  \<^verbatim>\<open>recurring_loan_payments\<close> 0. With a bank record that is not empty, each of the four
  fields is the bank record's value when the key is present, and 0 when it is missing.
\<close>

theorem combine_bank_fields:
  assumes "combine_extracted_data now identity income bank = Inr p"
  shows "(bank = None \<or> bank = Some [] \<longrightarrow>
            map_of p ''average_balance'' = Some PNone \<and>
            map_of p ''total_expenses'' = Some PNone \<and>
            map_of p ''overdraft_occurrences'' = Some PNone \<and>
            map_of p ''recurring_loan_payments'' = Some (PInt 0)) \<and>
         (\<forall>b k. bank = Some b \<and> b \<noteq> [] \<and>
                k \<in> {''average_balance'', ''total_expenses'', ''recurring_loan_payments'',
                     ''overdraft_occurrences''} \<longrightarrow>
            map_of p k = Some (case map_of b k of Some v \<Rightarrow> v | None \<Rightarrow> PInt 0))"
proof (intro conjI impI allI)
  assume b: "bank = None \<or> bank = Some []"
  then have part: "(case bank of None \<Rightarrow> no_bank_fields
          | Some b \<Rightarrow> if py_truthy (PDict b) then bank_fields b else no_bank_fields)
          = no_bank_fields" by auto
  show "map_of p ''average_balance'' = Some PNone"
    using combine_keys(3) [OF assms, of "''average_balance''"] 
    by (simp add: part no_bank_fields_def)
  show "map_of p ''total_expenses'' = Some PNone"
    using combine_keys(3) [OF assms, of "''total_expenses''"] 
    by (simp add: part no_bank_fields_def)
  show "map_of p ''overdraft_occurrences'' = Some PNone"
    using combine_keys(3) [OF assms, of "''overdraft_occurrences''"] 
    by (simp add: part no_bank_fields_def)
  show "map_of p ''recurring_loan_payments'' = Some (PInt 0)"
    using combine_keys(3) [OF assms, of "''recurring_loan_payments''"] 
    by (simp add: part no_bank_fields_def)
next
  fix b k
  assume h: "bank = Some b \<and> b \<noteq> [] \<and>
                k \<in> {''average_balance'', ''total_expenses'', ''recurring_loan_payments'',
                     ''overdraft_occurrences''}"
  then have "map_of p k = map_of (bank_fields b) k"
    using combine_keys(3) [OF assms, of k] by simp
  also have "\<dots> = Some (case map_of b k of Some v \<Rightarrow> v | None \<Rightarrow> PInt 0)"
    using h by (auto simp: bank_fields_def dict_get_def)
  finally show "map_of p k = Some (case map_of b k of Some v \<Rightarrow> v | None \<Rightarrow> PInt 0)" .
qed

lemma combine_demo_bank:
  "combine_extracted_data (2024, 6) [] [(''monthly_gross_income'', PInt 3000)]
       (Some [(''average_balance'', PInt 12000)]) =
     Inr [(''full_name'', PStr ''Unknown''), (''date_of_birth'', PStr []),
          (''document_number'', PStr []), (''address'', PStr []),
          (''employer_name'', PStr []), (''job_title'', PStr []),
          (''monthly_gross_income'', PInt 3000),
          (''monthly_net_income'', PFloat 2100),
          (''employment_start_date'', PStr []), (''employment_months'', PInt 0),
          (''contract_type'', PStr ''unknown''), (''average_balance'', PInt 12000),
          (''total_expenses'', PInt 0), (''recurring_loan_payments'', PInt 0),
          (''overdraft_occurrences'', PInt 0)]"
  by (simp add: combine_extracted_data_def Let_def dict_get_def py_mul_float_def
      employment_months_of_def bank_fields_def)

text \<open>
  The theorem at a bank record with \<^verbatim>\<open>average_balance\<close> 12000 and no
  \<^verbatim>\<open>total_expenses\<close>: 12000 reaches the profile unchanged, the missing field is 0.
\<close>

theorem combine_bank_fields_witness:
  "\<exists>p. combine_extracted_data (2024, 6) [] [(''monthly_gross_income'', PInt 3000)]
          (Some [(''average_balance'', PInt 12000)]) = Inr p \<and>
       map_of p ''average_balance'' = Some (PInt 12000) \<and>
       map_of p ''total_expenses'' = Some (PInt 0)"
  using combine_bank_fields [OF combine_demo_bank] combine_demo_bank by simp











section \<open>Properties of the risk engine\<close>














section \<open>Properties of the document extractor and of persistence\<close>

text \<open>
  Claim C7. For every file and every document type that is not a key of the registry,
  \<^verbatim>\<open>extract_document_data\<close> fails with the error of an unknown document type (the
  \<^verbatim>\<open>ValueError\<close> raised at line 118, re-raised by the handler as
  \<^verbatim>\<open>Exception("Extraction error: Unknown document type: ...")\<close>) and leaves no event: no
  request is sent to the document service.
\<close>

theorem unknown_document_type:
  assumes "document_type \<notin> {''identity'', ''income'', ''bank_statement''}"
  shows "extract_document_data env pdf_file document_type =
           ([], Inl (Exception ''Extraction error: ''
                       (ValueError (''Unknown document type: '' @ document_type))))"
proof -
  have "map_of SCHEMAS document_type = None"
    using assms by (simp add: SCHEMAS_def)
  then show ?thesis
    by (simp add: extract_document_data_def lift_def)
qed

text \<open>
  The theorem at the document type \<^verbatim>\<open>unknown_category\<close>.
\<close>

theorem unknown_document_type_witness:
  "extract_document_data demo_env ''%PDF-1.4'' ''unknown_category'' =
     ([], Inl (Exception ''Extraction error: ''
                 (ValueError ''Unknown document type: unknown_category'')))"
  using unknown_document_type [of "''unknown_category''" demo_env "''%PDF-1.4''"]
  by simp






section \<open>Properties of the pipeline\<close>


lemma bind_run_fst:
  "fst (bind_run m f) = fst m @ (case snd m of Inl e \<Rightarrow> [] | Inr x \<Rightarrow> fst (f x))"
  by (cases m) (auto simp: bind_run_def split: sum.splits prod.splits)

lemma bind_run_snd:
  "snd (bind_run m f) = (case snd m of Inl e \<Rightarrow> Inl e | Inr x \<Rightarrow> snd (f x))"
  by (cases m) (auto simp: bind_run_def split: sum.splits prod.splits)

lemma extract_events:
  "fst (extract_document_data env f t) =
     (if map_of SCHEMAS t = None then [] else [DocAIPost t f])"
  by (auto simp: extract_document_data_def lift_def emit_def bind_run_def
      split: option.splits sum.splits prod.splits)

lemma schema_keys:
  "map_of SCHEMAS ''identity'' \<noteq> None"
  "map_of SCHEMAS ''income'' \<noteq> None"
  "map_of SCHEMAS ''bank_statement'' \<noteq> None"
  by (simp_all add: SCHEMAS_def)

lemma step_identity_run:
  "step_identity env f =
     ([Spinner ExtractIdentity, DocAIPost ''identity'' f] @
        (case bind_e (snd (extract_document_data env f ''identity'')) py_as_dict of
           Inl e \<Rightarrow> [] | Inr d \<Rightarrow> [Success ExtractIdentity]),
      bind_e (snd (extract_document_data env f ''identity'')) py_as_dict)"
  using extract_events [of env f "''identity''"] schema_keys(1)
  by (cases "extract_document_data env f ''identity''")
     (auto simp: step_identity_def bind_run_def emit_def lift_def bind_e_def
      split: sum.splits prod.splits)

lemma step_income_run:
  "step_income env f =
     ([Spinner ExtractIncome, DocAIPost ''income'' f] @
        (case bind_e (bind_e (snd (extract_document_data env f ''income'')) py_as_dict)
                (\<lambda>d. bind_e (py_format_2f (dict_get d ''monthly_gross_income'' (PInt 0)))
                        (\<lambda>_. Inr d)) of
           Inl e \<Rightarrow> [] | Inr d \<Rightarrow> [Success ExtractIncome]),
      bind_e (bind_e (snd (extract_document_data env f ''income'')) py_as_dict)
        (\<lambda>d. bind_e (py_format_2f (dict_get d ''monthly_gross_income'' (PInt 0)))
                (\<lambda>_. Inr d)))"
  using extract_events [of env f "''income''"] schema_keys(2)
  by (cases "extract_document_data env f ''income''")
     (auto simp: step_income_def bind_run_def emit_def lift_def bind_e_def
      split: sum.splits prod.splits)

lemma step_bank_run:
  "step_bank env bank =
     (case bank of
        None \<Rightarrow> ([], Inr None)
      | Some f \<Rightarrow>
          ([Spinner ExtractBank, DocAIPost ''bank_statement'' f] @
             (case bind_e (snd (extract_document_data env f ''bank_statement'')) py_as_dict of
                Inl e \<Rightarrow> [] | Inr d \<Rightarrow> [Success ExtractBank]),
           bind_e (bind_e (snd (extract_document_data env f ''bank_statement'')) py_as_dict)
             (\<lambda>d. Inr (Some d))))"
  using schema_keys(3)
  by (cases bank)
     (auto simp: step_bank_def bind_run_def emit_def lift_def bind_e_def extract_events
      split: sum.splits prod.splits dest: arg_cong [where f = fst])


lemma step_combine_run:
  "step_combine env idd incd bank =
     (Spinner Combine #
        (case combine_extracted_data (clock_today env) idd incd bank of
           Inl e \<Rightarrow> [] | Inr d \<Rightarrow> [Success Combine]),
      combine_extracted_data (clock_today env) idd incd bank)"
  by (auto simp: step_combine_def bind_run_def emit_def lift_def split: sum.splits)

lemma analyze_risk_events:
  "fst (analyze_risk env profile loan) =
     (case deterministic_metrics profile loan of Inl e \<Rightarrow> [] | Inr t \<Rightarrow> [MinistralPost])"
  by (auto simp: analyze_risk_def split: sum.splits prod.splits)

lemma step_score_run:
  "step_score env profile amount =
     (Spinner Score # fst (analyze_risk env profile (PInt amount)) @
        (case bind_e (snd (analyze_risk env profile (PInt amount)))
                (\<lambda>a. bind_e (py_as_dict a) (\<lambda>_. Inr a)) of
           Inl e \<Rightarrow> [] | Inr a \<Rightarrow> [Success Score]),
      bind_e (snd (analyze_risk env profile (PInt amount)))
        (\<lambda>a. bind_e (py_as_dict a) (\<lambda>_. Inr a)))"
  by (cases "analyze_risk env profile (PInt amount)")
     (auto simp: step_score_def bind_run_def emit_def lift_def bind_e_def
      split: sum.splits prod.splits)

lemma step_persist_run:
  "step_persist env profile assessment amount =
     (Spinner Persist #
        fst (fst (save_to_mongodb env
                    [(''applicant_data'', PDict profile),
                     (''risk_assessment'', assessment),
                     (''loan_amount'', PInt amount)])) @
        (case snd (fst (save_to_mongodb env
                    [(''applicant_data'', PDict profile),
                     (''risk_assessment'', assessment),
                     (''loan_amount'', PInt amount)])) of
           Inl e \<Rightarrow> [] | Inr i \<Rightarrow> [Success Persist]),
      snd (fst (save_to_mongodb env
                    [(''applicant_data'', PDict profile),
                     (''risk_assessment'', assessment),
                     (''loan_amount'', PInt amount)])))"
  by (cases "fst (save_to_mongodb env
                    [(''applicant_data'', PDict profile),
                     (''risk_assessment'', assessment),
                     (''loan_amount'', PInt amount)])")
     (auto simp: step_persist_def bind_run_def emit_def lift_def split: sum.splits)

lemma save_events:
  "fst (fst (save_to_mongodb env d)) =
     (case mongo_client env of
        Some e \<Rightarrow> []
      | None \<Rightarrow> [MongoInsert (dict_set d ''created_at'' (PDatetime (clock_utcnow env)))])"
  by (auto simp: save_to_mongodb_def Let_def split: option.splits prod.splits sum.splits)

lemma save_error:
  "snd (fst (save_to_mongodb env d)) = Inl e \<Longrightarrow> \<exists>cause. e = Exception ''MongoDB error: '' cause"
  by (auto simp: save_to_mongodb_def Let_def split: option.splits prod.splits sum.splits)

















lemma early_steps_no_score:
  "Success Score \<notin> set (fst (step_identity env f))"
  "Success Score \<notin> set (fst (step_income env f))"
  "Success Score \<notin> set (fst (step_bank env bank))"
  "Success Score \<notin> set (fst (step_combine env a b c))"
  "Success Score \<notin> set (fst (step_persist env p r n))"
  by (auto simp: step_identity_run step_income_run step_bank_run step_combine_run
      step_persist_run save_events split: sum.splits option.splits)

lemma score_success:
  "Success Score \<in> set (fst (step_score env p n)) \<Longrightarrow> \<exists>a. snd (step_score env p n) = Inr a"
  by (cases "snd (step_score env p n)")
     (auto simp: step_score_run analyze_risk_events split: sum.splits)

lemma persist_error:
  "snd (step_persist env p r n) = Inl e \<Longrightarrow> \<exists>cause. e = Exception ''MongoDB error: '' cause"
  by (auto simp: step_persist_run dest: save_error)

lemma failure_after_score:
  assumes "process_application env idf incf bank amount = (es, Inl e)"
    and "Success Score \<in> set es"
  shows "\<exists>cause. e = Exception ''MongoDB error: '' cause"
proof -
  from assms have r: "snd (process_application env idf incf bank amount) = Inl e"
    and ev: "Success Score \<in> set (fst (process_application env idf incf bank amount))"
    by simp_all
  from r ev show ?thesis
    using early_steps_no_score [of env]
    by (auto simp: process_application_def bind_run_fst bind_run_snd lift_def
        split: sum.splits dest: score_success persist_error)
qed

lemma offered_report_uploads: "offered_report env (store_uploads w ss) = offered_report env ss"
  by (simp add: offered_report_def store_uploads_def split: option.splits)

text \<open>
  Claim C5, amended. When a run fails after scoring has completed, the failure is the
  persistence error (a \<^verbatim>\<open>MongoDB error\<close>), the handler of \<^verbatim>\<open>main\<close> shows it, and the
  session keeps the profile, the assessment, the application id and the completion flag
  it had before the run: the profile and assessment just computed are not stored. The
  report offered is the one of the session before the run, and none if no run had
  completed.
\<close>

theorem persistence_failure:
  assumes "process_button w"
    and "identity_file (store_uploads w ss0) = Some idf"
    and "income_file (store_uploads w ss0) = Some incf"
    and "process_application env idf incf (bank_file (store_uploads w ss0)) (loan_slider w) =
           (es, Inl e)"
    and "Success Score \<in> set es"
  shows "(\<exists>cause. e = Exception ''MongoDB error: '' cause) \<and>
         main env w ss0 =
           (es @ [ErrorShown e], store_uploads w ss0, offered_report env ss0) \<and>
         combined_data (store_uploads w ss0) = combined_data ss0 \<and>
         risk_assessment (store_uploads w ss0) = risk_assessment ss0 \<and>
         application_id (store_uploads w ss0) = application_id ss0 \<and>
         processing_complete (store_uploads w ss0) = processing_complete ss0 \<and>
         (\<not> processing_complete ss0 \<longrightarrow> offered_report env ss0 = None)"
proof -
  have cause: "\<exists>cause. e = Exception ''MongoDB error: '' cause"
    using failure_after_score [OF assms(4,5)] .
  have run: "main env w ss0 =
           (es @ [ErrorShown e], store_uploads w ss0, offered_report env ss0)"
    using assms(1-4) by (simp add: main_def Let_def offered_report_uploads)
  have kept: "combined_data (store_uploads w ss0) = combined_data ss0 \<and>
         risk_assessment (store_uploads w ss0) = risk_assessment ss0 \<and>
         application_id (store_uploads w ss0) = application_id ss0 \<and>
         processing_complete (store_uploads w ss0) = processing_complete ss0"
    by (simp add: store_uploads_def)
  have none: "\<not> processing_complete ss0 \<longrightarrow> offered_report env ss0 = None"
    by (simp add: offered_report_def split: option.splits)
  from cause run kept none show ?thesis by blast
qed

text \<open>
  Claim C5 as stated fails in a new session when the database refuses the insertion:
  scoring has completed, the run ends with the persistence error, and the session holds
  neither profile nor assessment, so no report is offered, in this run of the script or
  in the next.
\<close>

theorem lost_assessment_counterexample:
  "snd (process_application mongo_down_env ''%PDF-id'' ''%PDF-pay'' (Some ''%PDF-bank'') 15000) =
     Inl (Exception ''MongoDB error: '' (PyMongoError ''No servers found yet'')) \<and>
   Success Score \<in> set (fst (main mongo_down_env demo_widgets initial_session)) \<and>
   snd (snd (main mongo_down_env demo_widgets initial_session)) = None \<and>
   combined_data (fst (snd (main mongo_down_env demo_widgets initial_session))) = None \<and>
   risk_assessment (fst (snd (main mongo_down_env demo_widgets initial_session))) = None \<and>
   offered_report mongo_down_env
     (fst (snd (main mongo_down_env demo_widgets initial_session))) = None"
  by code_simp

text \<open>
  The theorem in a new session with the three files uploaded and the database refusing
  the insertion.
\<close>

theorem persistence_failure_witness:
  "last (fst (main mongo_down_env demo_widgets initial_session)) =
     ErrorShown (Exception ''MongoDB error: '' (PyMongoError ''No servers found yet'')) \<and>
   fst (snd (main mongo_down_env demo_widgets initial_session)) =
     store_uploads demo_widgets initial_session \<and>
   snd (snd (main mongo_down_env demo_widgets initial_session)) = None"
proof -
  let ?run = "process_application mongo_down_env ''%PDF-id'' ''%PDF-pay''
                (bank_file (store_uploads demo_widgets initial_session))
                (loan_slider demo_widgets)"
  have b: "process_button demo_widgets"
    by (simp add: demo_widgets_def)
  have f1: "identity_file (store_uploads demo_widgets initial_session) = Some ''%PDF-id''"
    by (simp add: demo_widgets_def store_uploads_def)
  have f2: "income_file (store_uploads demo_widgets initial_session) = Some ''%PDF-pay''"
    by (simp add: demo_widgets_def store_uploads_def)
  have r: "snd ?run = Inl (Exception ''MongoDB error: '' (PyMongoError ''No servers found yet''))"
    by code_simp
  have s: "Success Score \<in> set (fst ?run)"
    by code_simp
  have fresh: "\<not> processing_complete initial_session"
    by (simp add: initial_session_def)
  from r have run: "?run = (fst ?run,
      Inl (Exception ''MongoDB error: '' (PyMongoError ''No servers found yet'')))"
    by (metis prod.collapse)
  from persistence_failure [OF b f1 f2 run s] fresh
  show ?thesis by simp
qed


end
